theory Spec2Isabelle
  imports Main
begin

section \<open>Values on the wire\<close>

text \<open>
  Identifiers are the integers minted by the coordination store.  A payload is an
  arbitrary JSON value; only the shapes the server itself builds are distinguished.
\<close>

type_synonym ident = int

type_synonym handle = nat

datatype json = JUndefined | JNum int | JStr string | JObj "(string \<times> json) list"

record scope =
  scope_type :: string
  scope_id :: ident

text \<open>
  The request envelope as \<open>JSON.parse\<close> delivers it: \<open>msg.name\<close>, \<open>msg.scope\<close> (optional),
  \<open>msg.data\<close> and \<open>msg.id\<close>, the correlation id (optional).
\<close>

record msg =
  msg_name :: string
  msg_scope :: "scope option"
  msg_data :: json
  msg_id :: "ident option"

text \<open>The response envelope \<open>{ name, data, id }\<close> handed to \<open>JSON.stringify\<close>.\<close>

record envelope =
  env_name :: string
  env_data :: json
  env_id :: "ident option"

text \<open>\<open>new User(id, socket)\<close>: the identifier and the connection that owns the user.\<close>

record user =
  user_id :: ident
  user_socket :: nat

datatype target = Self | UserT user | RoomT handle | EntityT handle

section \<open>Observable actions\<close>

text \<open>
  Every call the server makes on a collaborator is recorded, in program order: the local
  registries, the coordination store (\<open>redis\<close>), the inter-process link
  (\<open>this.server.send\<close>), the event surface of a target (\<open>fire\<close>), the client socket,
  the console, the process-wide \<open>error\<close> event, and the steps of start-up
  (\<open>settings.server\<close> is an \<open>http.Server\<close>, an \<open>https.Server\<close> or something else).
\<close>

datatype server_object = HttpServer handle | HttpsServer handle | OtherObject

text \<open>
  What a listener may throw: an \<open>Error\<close> with its message, the \<open>TypeError\<close> the engine
  raises itself, or any other value.  A property can be assigned on the objects among
  them; on a value that is not an object the assignment throws a \<open>TypeError\<close>, the
  source being a module and so in strict mode.
\<close>

datatype thrown = ErrorObject string | TypeError | Value json

fun is_object :: "thrown \<Rightarrow> bool" where
  "is_object (ErrorObject _) = True"
| "is_object TypeError = True"
| "is_object (Value (JObj _)) = True"
| "is_object (Value _) = False"

datatype effect =
    UsersGet ident
  | RoomsGet ident
  | EntitiesGet ident
  | StoreINCR string
  | StoreHSET string ident "ident option"
  | StoreHGET string ident
  | ServerSend string msg ident "ident option"
  | Fire target string "user option" json
  | SocketSend nat envelope
  | SocketClose nat
  | ConsoleError thrown
  | ErrorEvent thrown
  | StoreConnect "string option"
  | OnUpgrade "server_object option"

datatype ('e, 'a) promise = Resolved 'a | Rejected 'e

section \<open>Coordination store\<close>

text \<open>
  The store holds integer counters (\<open>INCR\<close>) and hashes (\<open>HSET\<close>/\<open>HGET\<close>).  A hash field
  is the decimal string of an identifier, so it is kept as the identifier; the value
  written by \<open>generateId\<close> is \<open>this.id\<close>, a number or \<open>null\<close> (here \<open>None\<close>).
  The store is modelled while it is reachable.
\<close>

record store =
  counters :: "string \<rightharpoonup> int"
  hashes :: "string \<Rightarrow> ident \<rightharpoonup> ident option"

definition INCR :: "string \<Rightarrow> store \<Rightarrow> int \<times> store" where
  "INCR key s =
     (let v = (case counters s key of None \<Rightarrow> 0 | Some n \<Rightarrow> n) + 1
      in (v, s\<lparr>counters := (counters s)(key \<mapsto> v)\<rparr>))"

definition HSET :: "string \<Rightarrow> ident \<Rightarrow> ident option \<Rightarrow> store \<Rightarrow> store" where
  "HSET key field v s = s\<lparr>hashes := (hashes s)(key := (hashes s key)(field \<mapsto> v))\<rparr>"

definition HGET :: "string \<Rightarrow> ident \<Rightarrow> store \<Rightarrow> ident option option" where
  "HGET key field s = hashes s key field"

text \<open>
  \<open>parseInt\<close> of what \<open>HGET\<close> returns: an absent field (\<open>null\<close>) and the string
  \<open>"null"\<close> both give \<open>NaN\<close> (here \<open>None\<close>); a stored number gives that number.
\<close>

definition parseInt :: "ident option option \<Rightarrow> int option" where
  "parseInt r = (case r of None \<Rightarrow> None | Some None \<Rightarrow> None | Some (Some n) \<Rightarrow> Some n)"

text \<open>JavaScript truthiness of a number that may be \<open>NaN\<close> or \<open>undefined\<close>.\<close>

definition truthy_num :: "int option \<Rightarrow> bool" where
  "truthy_num v = (case v of None \<Rightarrow> False | Some n \<Rightarrow> n \<noteq> 0)"

section \<open>Completions\<close>

text \<open>
  A synchronous call returns or throws.  An \<open>async\<close> function never throws to its caller:
  an exception raised in its body, also before the first \<open>await\<close>, rejects the promise
  it returns.  The first parameter is the type of what is thrown: the message, where
  the code only throws \<open>new Error(message)\<close>; any thrown value, where listeners run.
\<close>

datatype ('e, 'a) completion = Returns 'a | Throws 'e

definition async :: "effect list \<times> ('e, 'a) completion \<Rightarrow> effect list \<times> ('e, 'a) promise" where
  "async r = (fst r, case snd r of Returns v \<Rightarrow> Resolved v | Throws e \<Rightarrow> Rejected e)"

definition after :: "effect list \<Rightarrow> effect list \<times> 'a \<Rightarrow> effect list \<times> 'a" where
  "after es r = (es @ fst r, snd r)"

section \<open>The process\<close>

text \<open>
  What a registered listener does when it is invoked with \<open>(sender, data, callback)\<close>:
  it calls the callback some number of times, each time with \<open>(err, data)\<close> where
  \<open>err\<close> is absent or an \<open>Error\<close> with a message, and then returns or throws
  some value.
\<close>

record 'r behaviour =
  calls :: "(string option \<times> 'r) list"
  raises :: "thrown option"

text \<open>
  \<open>this.id\<close>, the local registries \<open>this.users\<close>, \<open>this.rooms\<close> and
  \<open>this.networkEntities\<close>, the listeners registered on each event surface, the
  listeners of the \<open>authenticate\<close> event of the process (their callback takes a user
  identifier), and the client of the coordination store.
\<close>

text \<open>
  Modelled from the spec: the classes \<open>Users\<close> and \<open>Rooms\<close> (core/users.js and
  core/rooms.js are not among the sources) are the Local Registries, in-memory
  mappings from identifier to live handle; \<open>get\<close> is a lookup by identifier and
  \<open>add\<close> stores the user under its identifier.  \<open>this.networkEntities\<close> is a \<open>Map\<close>.
  The source awaits \<open>this.users.get\<close>; anything it may do beyond the lookup is not
  part of the model.
\<close>

record process =
  pid :: "ident option"
  users :: "ident \<rightharpoonup> user"
  rooms :: "ident \<rightharpoonup> handle"
  networkEntities :: "ident \<rightharpoonup> handle"
  handlers :: "target \<Rightarrow> string \<Rightarrow> (user option \<Rightarrow> json \<Rightarrow> json behaviour) list"
  authenticate :: "(user option \<Rightarrow> json \<Rightarrow> ident behaviour) list"
  redis :: store

definition reservedEvents :: "string list" where
  "reservedEvents = [''destroy'']"

definition as_reply :: "ident behaviour \<Rightarrow> json behaviour" where
  "as_reply b = \<lparr>calls = map (\<lambda>(e, i). (e, JNum i)) (calls b), raises = raises b\<rparr>"

definition listeners :: "process \<Rightarrow> target \<Rightarrow> string \<Rightarrow> (user option \<Rightarrow> json \<Rightarrow> json behaviour) list" where
  "listeners p t n =
     (if t = Self \<and> n = ''authenticate''
      then map (\<lambda>h u d. as_reply (h u d)) (authenticate p)
      else handlers p t n)"

definition hasEvent :: "process \<Rightarrow> string \<Rightarrow> bool" where
  "hasEvent p n = (listeners p Self n \<noteq> [])"

text \<open>
  \<open>fire\<close> of the event surface: the registered listeners run in order, each with the
  callback it was handed; an exception raised by one of them leaves \<open>fire\<close>.
\<close>

fun run_listeners :: "(string option \<Rightarrow> 'r \<Rightarrow> effect list) \<Rightarrow> 'r behaviour list \<Rightarrow> effect list \<times> (thrown, unit) completion" where
  "run_listeners cb [] = ([], Returns ())"
| "run_listeners cb (b # bs) =
     (let es = concat (map (\<lambda>(e, d). cb e d) (calls b))
      in case raises b of
           Some x \<Rightarrow> (es, Throws x)
         | None \<Rightarrow> after es (run_listeners cb bs))"

definition fire :: "process \<Rightarrow> target \<Rightarrow> msg \<Rightarrow> user option \<Rightarrow> (string option \<Rightarrow> json \<Rightarrow> effect list) \<Rightarrow> effect list \<times> (thrown, unit) completion" where
  "fire p t m u cb =
     after [Fire t (msg_name m) u (msg_data m)]
       (run_listeners cb (map (\<lambda>h. h u (msg_data m)) (listeners p t (msg_name m))))"

section \<open>Identifier allocation\<close>

definition generateId :: "process \<Rightarrow> string \<Rightarrow> effect list \<times> ident \<times> process" where
  "generateId p kind =
     (let (n, r) = INCR (''_id:'' @ kind) (redis p)
      in if kind \<noteq> ''server''
         then ([StoreINCR (''_id:'' @ kind), StoreHSET (''_route:'' @ kind) n (pid p)],
               n, p\<lparr>redis := HSET (''_route:'' @ kind) n (pid p) r\<rparr>)
         else ([StoreINCR (''_id:'' @ kind)], n, p\<lparr>redis := r\<rparr>))"

section \<open>Message dispatch\<close>

text \<open>
  The reply callback built for each incoming message:
  \<open>if (err || e.msg.id) socket.send(JSON.stringify({ name, data: err ? { err: err.message } : data, id }))\<close>.
\<close>

definition callback :: "nat \<Rightarrow> msg \<Rightarrow> string option \<Rightarrow> json \<Rightarrow> effect list" where
  "callback sk m err d =
     (if err \<noteq> None \<or> truthy_num (msg_id m)
      then [SocketSend sk \<lparr>env_name = msg_name m,
                           env_data = (case err of Some e \<Rightarrow> JObj [(''err'', JStr e)] | None \<Rightarrow> d),
                           env_id = msg_id m\<rparr>]
      else [])"

text \<open>
  The \<open>switch\<close> on \<open>msg.scope?.type\<close>.  The result \<open>None\<close> is the early \<open>return\<close>;
  \<open>Some t\<close> is the value of \<open>target\<close> when the switch is left.
\<close>

definition remote :: "process \<Rightarrow> msg \<Rightarrow> string \<Rightarrow> ident \<Rightarrow> effect list \<times> target option option" where
  "remote p m key i =
     (case parseInt (HGET key i (redis p)) of
        None \<Rightarrow> ([StoreHGET key i], None)
      | Some serverId \<Rightarrow>
          if \<not> truthy_num (Some serverId) then ([StoreHGET key i], None)
          else ([StoreHGET key i, ServerSend ''_message'' m serverId (pid p)], Some None))"

definition resolve :: "process \<Rightarrow> msg \<Rightarrow> effect list \<times> target option option" where
  "resolve p m =
     (case msg_scope m of
        None \<Rightarrow> ([], Some None)
      | Some sc \<Rightarrow>
          if scope_type sc = ''server'' then ([], Some (Some Self))
          else if scope_type sc = ''user'' then
            ([UsersGet (scope_id sc)], Some (map_option UserT (users p (scope_id sc))))
          else if scope_type sc = ''room'' then
            (case rooms p (scope_id sc) of
               Some h \<Rightarrow> ([RoomsGet (scope_id sc)], Some (Some (RoomT h)))
             | None \<Rightarrow> after [RoomsGet (scope_id sc)] (remote p m ''_route:room'' (scope_id sc)))
          else if scope_type sc = ''networkEntity'' then
            (case networkEntities p (scope_id sc) of
               Some h \<Rightarrow> ([EntitiesGet (scope_id sc)], Some (Some (EntityT h)))
             | None \<Rightarrow> after [EntitiesGet (scope_id sc)] (remote p m ''_route:networkEntity'' (scope_id sc)))
          else ([], Some None))"

definition onMessage :: "process \<Rightarrow> msg \<Rightarrow> user option \<Rightarrow> (string option \<Rightarrow> json \<Rightarrow> effect list) \<Rightarrow> effect list \<times> (thrown, unit) promise" where
  "onMessage p m u cb =
     (if msg_name m \<in> set reservedEvents
      then (cb (Some (''Event '' @ msg_name m @ '' is reserved'')) JUndefined, Resolved ())
      else if hasEvent p (msg_name m) then async (fire p Self m u cb)
      else (case resolve p m of
              (es, None) \<Rightarrow> (es, Resolved ())
            | (es, Some None) \<Rightarrow> (es, Resolved ())
            | (es, Some (Some t)) \<Rightarrow> after es (async (fire p t m u cb))))"

section \<open>Connection session\<close>

text \<open>
  The closure of one \<open>upgrade\<close>: the socket and the variable \<open>user\<close>, \<open>null\<close> until
  \<open>connectUser\<close> assigns it.
\<close>

record session =
  sock :: nat
  bound :: "user option"

text \<open>
  \<open>connectUser\<close>: \<open>user = new User(id, socket)\<close>, \<open>this.users.add(user)\<close>,
  \<open>callback(null, user.id)\<close>.  The bandwidth probe attached to the socket afterwards
  belongs to the performance module.
\<close>

definition connectUser :: "process \<Rightarrow> session \<Rightarrow> (string option \<Rightarrow> json \<Rightarrow> effect list) \<Rightarrow> ident \<Rightarrow> effect list \<times> process \<times> session" where
  "connectUser p s cb i =
     (let u = \<lparr>user_id = i, user_socket = sock s\<rparr>
      in (cb None (JNum i), p\<lparr>users := (users p)(i \<mapsto> u)\<rparr>, s\<lparr>bound := Some u\<rparr>))"

text \<open>
  The callback handed to the \<open>authenticate\<close> listeners:
  on an error, \<open>callback(err)\<close> and \<open>socket.close()\<close>; otherwise \<open>connectUser(userId)\<close>.
\<close>

definition verdict :: "(string option \<Rightarrow> json \<Rightarrow> effect list) \<Rightarrow> string option \<times> ident \<Rightarrow> effect list \<times> process \<times> session \<Rightarrow> effect list \<times> process \<times> session" where
  "verdict cb c acc =
     (case acc of (es, p, s) \<Rightarrow>
        (case fst c of
           Some e \<Rightarrow> (es @ cb (Some e) JUndefined @ [SocketClose (sock s)], p, s)
         | None \<Rightarrow> (case connectUser p s cb (snd c) of (fs, p', s') \<Rightarrow> (es @ fs, p', s'))))"

fun run_policy :: "(string option \<Rightarrow> json \<Rightarrow> effect list) \<Rightarrow> ident behaviour list \<Rightarrow> effect list \<times> process \<times> session \<Rightarrow> (effect list \<times> (thrown, unit) completion) \<times> process \<times> session" where
  "run_policy cb [] acc = (case acc of (es, p, s) \<Rightarrow> ((es, Returns ()), p, s))"
| "run_policy cb (b # bs) acc =
     (case fold (verdict cb) (calls b) acc of (es, p, s) \<Rightarrow>
        (case raises b of
           Some x \<Rightarrow> ((es, Throws x), p, s)
         | None \<Rightarrow> run_policy cb bs (es, p, s)))"

text \<open>The listener of \<open>_authenticate\<close> on the socket.\<close>

definition on_authenticate :: "process \<Rightarrow> session \<Rightarrow> json \<Rightarrow> (string option \<Rightarrow> json \<Rightarrow> effect list) \<Rightarrow> (effect list \<times> (thrown, unit) promise) \<times> process \<times> session" where
  "on_authenticate p s payload cb =
     (if \<not> hasEvent p ''authenticate'' then
        (case generateId p ''user'' of (es, i, p1) \<Rightarrow>
           (case connectUser p1 s cb i of (fs, p2, s2) \<Rightarrow> ((es @ fs, Resolved ()), p2, s2)))
      else
        (case run_policy cb (map (\<lambda>h. h (bound s) payload) (authenticate p))
                ([Fire Self ''authenticate'' (bound s) payload], p, s) of
           (r, p', s') \<Rightarrow> (async r, p', s')))"

text \<open>The listener of \<open>message\<close> on the socket, after \<open>JSON.parse\<close>.\<close>

definition on_message :: "process \<Rightarrow> session \<Rightarrow> msg \<Rightarrow> (effect list \<times> (thrown, unit) promise) \<times> process \<times> session" where
  "on_message p s m =
     (if msg_name m = ''_authenticate''
      then on_authenticate p s (msg_data m) (callback (sock s) m)
      else (onMessage p m (bound s) (callback (sock s) m), p, s))"

text \<open>
  The two handlers the constructor installs on the process.  \<open>uncaughtException\<close>
  logs the error and fires the \<open>error\<close> event of the process.  \<open>unhandledRejection\<close>
  logs the error, assigns \<open>err.promise = promise\<close> and fires the \<open>error\<close> event;
  when the rejection is not an object the assignment throws, and that \<open>TypeError\<close>,
  raised inside the handler, is an uncaught exception of the process.
\<close>

definition uncaughtException :: "thrown \<Rightarrow> effect list" where
  "uncaughtException err = [ConsoleError err, ErrorEvent err]"

definition unhandledRejection :: "thrown \<Rightarrow> effect list" where
  "unhandledRejection err =
     (if is_object err then [ConsoleError err, ErrorEvent err]
      else ConsoleError err # uncaughtException TypeError)"

text \<open>
  The listeners of the socket are \<open>async\<close> and nobody awaits them: a rejection reaches
  \<open>unhandledRejection\<close>.  The process goes on with the state it has.
\<close>

definition deliver :: "process \<Rightarrow> session \<Rightarrow> msg \<Rightarrow> effect list \<times> process \<times> session" where
  "deliver p s m =
     (case on_message p s m of
        ((es, Resolved _), p', s') \<Rightarrow> (es, p', s')
      | ((es, Rejected e), p', s') \<Rightarrow> (es @ unhandledRejection e, p', s'))"

section \<open>Start-up\<close>

text \<open>
  The settings object.  An absent property is \<open>None\<close>; a string property is falsy when
  absent or empty, an object property when absent.
\<close>

record settings =
  redisUrl :: "string option"
  scriptsPath :: "string option"
  templatesPath :: "string option"
  levelProvider :: "handle option"
  server :: "server_object option"

definition falsy_str :: "string option \<Rightarrow> bool" where
  "falsy_str v = (case v of None \<Rightarrow> True | Some x \<Rightarrow> x = [])"

definition is_server :: "server_object option \<Rightarrow> bool" where
  "is_server v = (case v of Some (HttpServer _) \<Rightarrow> True | Some (HttpsServer _) \<Rightarrow> True | _ \<Rightarrow> False)"

definition required :: "string \<Rightarrow> string" where
  "required x = x @ '' is required'' @ [CHR 0x0A]"

definition validateSettings :: "settings option \<Rightarrow> (string, unit) completion" where
  "validateSettings so =
     (case so of
        None \<Rightarrow> Throws ''settings is required''
      | Some s \<Rightarrow>
         (let error = [];
              error = (if falsy_str (redisUrl s) then error @ required ''settings.redisUrl'' else error);
              error = (if falsy_str (scriptsPath s) then error @ required ''settings.scriptsPath'' else error);
              error = (if falsy_str (templatesPath s) then error @ required ''settings.templatesPath'' else error);
              error = (if levelProvider s = None then error @ required ''settings.levelProvider'' else error);
              error = (if \<not> is_server (server s) then error @ required ''settings.server'' else error)
          in if error \<noteq> [] then Throws error else Returns ()))"

text \<open>The message \<open>validateSettings\<close> accumulates for a settings object that is present.\<close>

definition absent_lines :: "settings \<Rightarrow> string" where
  "absent_lines s =
     (if falsy_str (redisUrl s) then required ''settings.redisUrl'' else [])
   @ (if falsy_str (scriptsPath s) then required ''settings.scriptsPath'' else [])
   @ (if falsy_str (templatesPath s) then required ''settings.templatesPath'' else [])
   @ (if levelProvider s = None then required ''settings.levelProvider'' else [])
   @ (if \<not> is_server (server s) then required ''settings.server'' else [])"

text \<open>
  \<open>start\<close> up to the point where the transport listener is attached: validation, the
  two connections to the store, the identifier of the process, the \<open>upgrade\<close> listener.
  The initialisation of levels, scripts and templates lies between the last two and
  belongs to other modules.
\<close>

definition start :: "process \<Rightarrow> settings option \<Rightarrow> effect list \<times> (string, process) promise" where
  "start p so =
     (case validateSettings so of
        Throws e \<Rightarrow> ([], Rejected e)
      | Returns _ \<Rightarrow>
         (case so of
            None \<Rightarrow> ([], Rejected ''TypeError'')
          | Some s \<Rightarrow>
             (case generateId p ''server'' of (es, i, p') \<Rightarrow>
                ([StoreConnect (redisUrl s), StoreConnect (redisUrl s)] @ es @ [OnUpgrade (server s)],
                 Resolved (p'\<lparr>pid := Some i\<rparr>)))))"

text \<open>Whether a message contains a line.\<close>

fun mentions :: "string \<Rightarrow> string \<Rightarrow> bool" where
  "mentions x [] = (x = [])"
| "mentions x (c # cs) = (take (length x) (c # cs) = x \<or> mentions x cs)"

section \<open>The Players registry\<close>

text \<open>
  A player is an object (\<open>player_obj\<close> is its identity) with \<open>player.id\<close>,
  \<open>player.user.id\<close> and \<open>player.room.id\<close>.  \<open>Players\<close> is a \<open>Map\<close> with two more
  maps; \<open>subscribed\<close> lists the players on which \<open>add\<close> has registered its
  \<open>destroy\<close> listener, once for every registration.
\<close>

record player =
  player_obj :: nat
  player_id :: ident
  player_user :: ident
  player_room :: ident

record players =
  index :: "ident \<rightharpoonup> player"
  playersByUser :: "ident \<rightharpoonup> player"
  playersByRoom :: "ident \<rightharpoonup> player"
  subscribed :: "player list"

definition new_players :: players where
  "new_players = \<lparr>index = Map.empty, playersByUser = Map.empty, playersByRoom = Map.empty, subscribed = []\<rparr>"

definition add :: "players \<Rightarrow> player \<Rightarrow> player \<times> players" where
  "add r pl =
     (pl, r\<lparr>index := (index r)(player_id pl \<mapsto> pl),
            playersByUser := (playersByUser r)(player_user pl \<mapsto> pl),
            playersByRoom := (playersByRoom r)(player_room pl \<mapsto> pl),
            subscribed := subscribed r @ [pl]\<rparr>)"

definition get :: "players \<Rightarrow> ident \<Rightarrow> player option" where
  "get r k = index r k"

definition getByUserId :: "players \<Rightarrow> ident \<Rightarrow> player option" where
  "getByUserId r userId = playersByUser r userId"

definition getByRoomId :: "players \<Rightarrow> ident \<Rightarrow> player option" where
  "getByRoomId r roomId = playersByRoom r roomId"

text \<open>The listener that \<open>add\<close> registers on the player.\<close>

definition on_destroy :: "player \<Rightarrow> players \<Rightarrow> players" where
  "on_destroy pl r =
     r\<lparr>index := (index r)(player_id pl := None),
       playersByUser := (playersByUser r)(player_user pl := None),
       playersByRoom := (playersByRoom r)(player_room pl := None)\<rparr>"

text \<open>The player fires \<open>destroy\<close>: every listener registered on that player runs.\<close>

definition fire_destroy :: "players \<Rightarrow> player \<Rightarrow> players" where
  "fire_destroy r pl = fold on_destroy (filter (\<lambda>q. q = pl) (subscribed r)) r"

text \<open>A history of the registry: players are added and players fire \<open>destroy\<close>.\<close>

datatype operation = Add player | Destroy player

fun exec :: "operation \<Rightarrow> players \<Rightarrow> players" where
  "exec (Add pl) r = snd (add r pl)"
| "exec (Destroy pl) r = fire_destroy r pl"

fun never_readded :: "operation list \<Rightarrow> bool" where
  "never_readded [] = True"
| "never_readded (Add pl # ops) = never_readded ops"
| "never_readded (Destroy pl # ops) = (Add pl \<notin> set ops \<and> never_readded ops)"

text \<open>
  Two shapes of a registry used in the proofs: every entry sits under the key of the
  player it holds and that player carries the listener; and no entry holds a given
  player.
\<close>

definition keyed :: "players \<Rightarrow> bool" where
  "keyed r =
     ((\<forall>k q. index r k = Some q \<longrightarrow> k = player_id q \<and> q \<in> set (subscribed r))
    \<and> (\<forall>k q. playersByUser r k = Some q \<longrightarrow> k = player_user q \<and> q \<in> set (subscribed r))
    \<and> (\<forall>k q. playersByRoom r k = Some q \<longrightarrow> k = player_room q \<and> q \<in> set (subscribed r)))"

definition unreachable :: "players \<Rightarrow> player \<Rightarrow> bool" where
  "unreachable r pl =
     (\<forall>k. index r k \<noteq> Some pl \<and> playersByUser r k \<noteq> Some pl \<and> playersByRoom r k \<noteq> Some pl)"

section \<open>Classes of actions\<close>

text \<open>
  The actions of target resolution: a lookup in a local registry, a lookup in the
  routing table, a message handed to the inter-process link.
\<close>

fun routing :: "effect \<Rightarrow> bool" where
  "routing (UsersGet _) = True"
| "routing (RoomsGet _) = True"
| "routing (EntitiesGet _) = True"
| "routing (StoreHGET _ _) = True"
| "routing (ServerSend _ _ _ _) = True"
| "routing _ = False"


section \<open>A cluster of two processes\<close>

text \<open>
  Process 1 has allocated room 5, network entity 3 and user 7, so the routing table
  names it as their owner.  Process 2 owns room 6, network entity 4 and user 8, and has a listener for
  \<open>ping\<close> on its own event surface that answers \<open>pong\<close>, a listener for \<open>crash\<close>
  that raises, and a listener for \<open>hit\<close> on user 8.
\<close>

definition shared_store :: store where
  "shared_store =
     \<lparr>counters = [''_id:server'' \<mapsto> 2, ''_id:room'' \<mapsto> 6, ''_id:networkEntity'' \<mapsto> 4, ''_id:user'' \<mapsto> 8],
      hashes = (\<lambda>key.
        if key = ''_route:room'' then [5 \<mapsto> Some 1, 6 \<mapsto> Some 2]
        else if key = ''_route:networkEntity'' then [3 \<mapsto> Some 1, 4 \<mapsto> Some 2]
        else if key = ''_route:user'' then [7 \<mapsto> Some 1, 8 \<mapsto> Some 2]
        else Map.empty)\<rparr>"

definition user8 :: user where
  "user8 = \<lparr>user_id = 8, user_socket = 0\<rparr>"

definition process2 :: process where
  "process2 =
     \<lparr>pid = Some 2,
      users = [8 \<mapsto> user8],
      rooms = [6 \<mapsto> 60],
      networkEntities = [4 \<mapsto> 40],
      handlers = (\<lambda>t n.
        if t = Self \<and> n = ''ping'' then [\<lambda>u d. \<lparr>calls = [(None, JStr ''pong'')], raises = None\<rparr>]
        else if t = Self \<and> n = ''crash'' then [\<lambda>u d. \<lparr>calls = [], raises = Some (ErrorObject ''boom'')\<rparr>]
        else if t = UserT user8 \<and> n = ''hit'' then [\<lambda>u d. \<lparr>calls = [], raises = None\<rparr>]
        else []),
      authenticate = [],
      redis = shared_store\<rparr>"

definition session8 :: session where
  "session8 = \<lparr>sock = 0, bound = Some user8\<rparr>"

definition message :: "string \<Rightarrow> (string \<times> ident) option \<Rightarrow> ident option \<Rightarrow> msg" where
  "message n sc i =
     \<lparr>msg_name = n,
      msg_scope = map_option (\<lambda>(t, k). \<lparr>scope_type = t, scope_id = k\<rparr>) sc,
      msg_data = JNum 42,
      msg_id = i\<rparr>"


text \<open>
  Process 2 with an \<open>authenticate\<close> listener that accepts the payload 42 as user 77
  and refuses every other payload.
\<close>

definition guarded2 :: process where
  "guarded2 = process2\<lparr>authenticate :=
     [\<lambda>u d. if d = JNum 42 then \<lparr>calls = [(None, 77)], raises = None\<rparr>
             else \<lparr>calls = [(Some ''denied'', 0)], raises = None\<rparr>]\<rparr>"

text \<open>Two players in room 6.\<close>

definition alice :: player where
  "alice = \<lparr>player_obj = 1, player_id = 11, player_user = 8, player_room = 6\<rparr>"

definition bob :: player where
  "bob = \<lparr>player_obj = 2, player_id = 12, player_user = 9, player_room = 6\<rparr>"

text \<open>Settings with nothing usable in them, and complete settings.\<close>

definition no_settings :: settings where
  "no_settings = \<lparr>redisUrl = None, scriptsPath = Some [], templatesPath = None,
     levelProvider = None, server = Some OtherObject\<rparr>"

definition good_settings :: settings where
  "good_settings = \<lparr>redisUrl = Some ''redis://store'', scriptsPath = Some ''scripts'',
     templatesPath = Some ''templates'', levelProvider = Some 1, server = Some (HttpServer 2)\<rparr>"

section \<open>Properties of dispatch\<close>

subsection \<open>What a fired target can do\<close>

lemma callback_not_routing: "filter routing (callback sk m e d) = []"
  by (simp add: callback_def)

lemma run_listeners_not_routing:
  "filter routing (fst (run_listeners (callback sk m) bs)) = []"
proof (induction bs)
  case Nil
  show ?case by simp
next
  case (Cons b bs)
  have c: "filter routing (concat (map (\<lambda>(e, d). callback sk m e d) cs)) = []" for cs
    by (induction cs) (auto simp: callback_not_routing)
  show ?case using Cons c
    by (simp add: after_def Let_def split: option.splits)
qed

lemma fire_not_routing: "filter routing (fst (fire p t m' u (callback sk m))) = []"
  by (simp add: fire_def after_def run_listeners_not_routing)

subsection \<open>Rooms and network entities\<close>

text \<open>
  Claim C1.  A message that is not reserved and has no listener on the process's own
  event surface, and whose scope type is \<open>room\<close> or \<open>networkEntity\<close>, is first looked up
  in the local registry.  On a hit the target is fired and the only action of
  resolution is that one local lookup: the routing table is not read.  On a miss the
  routing table is read once; if it names an owning process (process identifiers are
  minted from 1, so it is not 0) the whole envelope is sent exactly once to that
  process together with the identifier of this process, and nothing else happens; if
  it has no entry, nothing else happens: no reply, no further lookup.
\<close>

theorem room_entity_resolution:
  assumes "msg_name m \<notin> set reservedEvents" and "\<not> hasEvent p (msg_name m)"
    and "msg_scope m = Some sc"
  shows
   "(scope_type sc = ''room'' \<and> rooms p (scope_id sc) = Some h \<longrightarrow>
       onMessage p m u cb = after [RoomsGet (scope_id sc)] (async (fire p (RoomT h) m u cb))
     \<and> filter routing (fst (onMessage p m u (callback sk m))) = [RoomsGet (scope_id sc)])
  \<and> (scope_type sc = ''room'' \<and> rooms p (scope_id sc) = None
        \<and> HGET ''_route:room'' (scope_id sc) (redis p) = Some (Some n) \<and> n \<noteq> 0 \<longrightarrow>
       onMessage p m u cb =
         ([RoomsGet (scope_id sc), StoreHGET ''_route:room'' (scope_id sc),
           ServerSend ''_message'' m n (pid p)], Resolved ()))
  \<and> (scope_type sc = ''room'' \<and> rooms p (scope_id sc) = None
        \<and> HGET ''_route:room'' (scope_id sc) (redis p) = None \<longrightarrow>
       onMessage p m u cb =
         ([RoomsGet (scope_id sc), StoreHGET ''_route:room'' (scope_id sc)], Resolved ()))
  \<and> (scope_type sc = ''networkEntity'' \<and> networkEntities p (scope_id sc) = Some h \<longrightarrow>
       onMessage p m u cb = after [EntitiesGet (scope_id sc)] (async (fire p (EntityT h) m u cb))
     \<and> filter routing (fst (onMessage p m u (callback sk m))) = [EntitiesGet (scope_id sc)])
  \<and> (scope_type sc = ''networkEntity'' \<and> networkEntities p (scope_id sc) = None
        \<and> HGET ''_route:networkEntity'' (scope_id sc) (redis p) = Some (Some n) \<and> n \<noteq> 0 \<longrightarrow>
       onMessage p m u cb =
         ([EntitiesGet (scope_id sc), StoreHGET ''_route:networkEntity'' (scope_id sc),
           ServerSend ''_message'' m n (pid p)], Resolved ()))
  \<and> (scope_type sc = ''networkEntity'' \<and> networkEntities p (scope_id sc) = None
        \<and> HGET ''_route:networkEntity'' (scope_id sc) (redis p) = None \<longrightarrow>
       onMessage p m u cb =
         ([EntitiesGet (scope_id sc), StoreHGET ''_route:networkEntity'' (scope_id sc)], Resolved ()))"
proof -
  have om: "onMessage p m u c =
      (case resolve p m of (es, None) \<Rightarrow> (es, Resolved ())
        | (es, Some None) \<Rightarrow> (es, Resolved ())
        | (es, Some (Some t)) \<Rightarrow> after es (async (fire p t m u c)))" for c
    using assms by (simp add: onMessage_def)
  have f: "filter routing (fst (async (fire p t m u (callback sk m)))) = []" for t
    by (simp add: async_def fire_not_routing)
  show ?thesis
    using assms(3) f
    by (simp add: om resolve_def remote_def after_def parseInt_def truthy_num_def)
qed

theorem room_entity_resolution_witness:
  "msg_name (message ''fire'' (Some (''room'', 5)) (Some 7)) \<notin> set reservedEvents
   \<and> \<not> hasEvent process2 ''fire''
   \<and> onMessage process2 (message ''fire'' (Some (''room'', 6)) (Some 7)) (Some user8)
        (callback 0 (message ''fire'' (Some (''room'', 6)) (Some 7)))
      = ([RoomsGet 6, Fire (RoomT 60) ''fire'' (Some user8) (JNum 42)], Resolved ())
   \<and> onMessage process2 (message ''fire'' (Some (''room'', 5)) (Some 7)) (Some user8)
        (callback 0 (message ''fire'' (Some (''room'', 5)) (Some 7)))
      = ([RoomsGet 5, StoreHGET ''_route:room'' 5,
          ServerSend ''_message'' (message ''fire'' (Some (''room'', 5)) (Some 7)) 1 (Some 2)], Resolved ())
   \<and> onMessage process2 (message ''fire'' (Some (''room'', 9)) (Some 7)) (Some user8)
        (callback 0 (message ''fire'' (Some (''room'', 9)) (Some 7)))
      = ([RoomsGet 9, StoreHGET ''_route:room'' 9], Resolved ())
   \<and> onMessage process2 (message ''fire'' (Some (''networkEntity'', 4)) None) (Some user8)
        (callback 0 (message ''fire'' (Some (''networkEntity'', 4)) None))
      = ([EntitiesGet 4, Fire (EntityT 40) ''fire'' (Some user8) (JNum 42)], Resolved ())
   \<and> onMessage process2 (message ''fire'' (Some (''networkEntity'', 3)) None) (Some user8)
        (callback 0 (message ''fire'' (Some (''networkEntity'', 3)) None))
      = ([EntitiesGet 3, StoreHGET ''_route:networkEntity'' 3,
          ServerSend ''_message'' (message ''fire'' (Some (''networkEntity'', 3)) None) 1 (Some 2)], Resolved ())
   \<and> onMessage process2 (message ''fire'' (Some (''networkEntity'', 9)) None) (Some user8)
        (callback 0 (message ''fire'' (Some (''networkEntity'', 9)) None))
      = ([EntitiesGet 9, StoreHGET ''_route:networkEntity'' 9], Resolved ())"
proof -
  note r = room_entity_resolution [where p = process2 and u = "Some user8" and sk = 0 and n = 1]
  show ?thesis
    using r [where m = "message ''fire'' (Some (''room'', 6)) (Some 7)" and h = 60
               and sc = "\<lparr>scope_type = ''room'', scope_id = 6\<rparr>"
               and cb = "callback 0 (message ''fire'' (Some (''room'', 6)) (Some 7))"]
      r [where m = "message ''fire'' (Some (''room'', 5)) (Some 7)"
               and sc = "\<lparr>scope_type = ''room'', scope_id = 5\<rparr>"
               and cb = "callback 0 (message ''fire'' (Some (''room'', 5)) (Some 7))"]
      r [where m = "message ''fire'' (Some (''room'', 9)) (Some 7)"
               and sc = "\<lparr>scope_type = ''room'', scope_id = 9\<rparr>"
               and cb = "callback 0 (message ''fire'' (Some (''room'', 9)) (Some 7))"]
      r [where m = "message ''fire'' (Some (''networkEntity'', 4)) None" and h = 40
               and sc = "\<lparr>scope_type = ''networkEntity'', scope_id = 4\<rparr>"
               and cb = "callback 0 (message ''fire'' (Some (''networkEntity'', 4)) None)"]
      r [where m = "message ''fire'' (Some (''networkEntity'', 3)) None"
               and sc = "\<lparr>scope_type = ''networkEntity'', scope_id = 3\<rparr>"
               and cb = "callback 0 (message ''fire'' (Some (''networkEntity'', 3)) None)"]
      r [where m = "message ''fire'' (Some (''networkEntity'', 9)) None"
               and sc = "\<lparr>scope_type = ''networkEntity'', scope_id = 9\<rparr>"
               and cb = "callback 0 (message ''fire'' (Some (''networkEntity'', 9)) None)"]
    by (simp add: process2_def shared_store_def user8_def message_def reservedEvents_def
          hasEvent_def listeners_def HGET_def fire_def after_def async_def)
qed

subsection \<open>Listeners of the process come first\<close>

text \<open>
  Claim C5.  A message whose name is not reserved and has a listener on the process's
  own event surface fires the process with the sender, the data and the reply
  callback, and that is all dispatch does: the registered listeners run, and no local
  registry is read, the routing table is not read and nothing is forwarded.
\<close>

theorem global_handler_preempts:
  "msg_name m \<notin> set reservedEvents \<Longrightarrow> hasEvent p (msg_name m) \<Longrightarrow>
     onMessage p m u cb =
       async (after [Fire Self (msg_name m) u (msg_data m)]
         (run_listeners cb (map (\<lambda>h. h u (msg_data m)) (listeners p Self (msg_name m)))))
   \<and> filter routing (fst (onMessage p m u (callback sk m))) = []"
  using fire_not_routing[of p Self m u sk m]
  by (simp add: onMessage_def fire_def async_def)

theorem global_handler_preempts_witness:
  "msg_name (message ''ping'' (Some (''room'', 5)) (Some 3)) \<notin> set reservedEvents
   \<and> hasEvent process2 ''ping''
   \<and> onMessage process2 (message ''ping'' (Some (''room'', 5)) (Some 3)) (Some user8)
        (callback 0 (message ''ping'' (Some (''room'', 5)) (Some 3)))
      = ([Fire Self ''ping'' (Some user8) (JNum 42),
          SocketSend 0 \<lparr>env_name = ''ping'', env_data = JStr ''pong'', env_id = Some 3\<rparr>], Resolved ())"
  using global_handler_preempts [where m = "message ''ping'' (Some (''room'', 5)) (Some 3)"
      and p = process2 and u = "Some user8" and sk = 0
      and cb = "callback 0 (message ''ping'' (Some (''room'', 5)) (Some 3))"]
  by (simp add: process2_def message_def reservedEvents_def
        hasEvent_def listeners_def after_def async_def callback_def truthy_num_def)

subsection \<open>Reserved names\<close>

text \<open>
  Claim C6.  \<open>destroy\<close> is reserved.  A message with a reserved name makes dispatch
  call the reply callback with the error \<open>Event <name> is reserved\<close> and do nothing
  else, whoever the sender is; on the socket this is exactly one error envelope, for
  a session with a bound user and for one without, and process and session are left
  as they were.
\<close>

theorem reserved_name_fails:
  "msg_name m \<in> set reservedEvents \<Longrightarrow>
     ''destroy'' \<in> set reservedEvents
   \<and> onMessage p m u cb = (cb (Some (''Event '' @ msg_name m @ '' is reserved'')) JUndefined, Resolved ())
   \<and> deliver p s m =
       ([SocketSend (sock s) \<lparr>env_name = msg_name m,
           env_data = JObj [(''err'', JStr (''Event '' @ msg_name m @ '' is reserved''))],
           env_id = msg_id m\<rparr>], p, s)"
  by (auto simp add: onMessage_def deliver_def on_message_def callback_def reservedEvents_def)

theorem reserved_name_fails_witness:
  "msg_name (message ''destroy'' (Some (''user'', 8)) None) \<in> set reservedEvents
   \<and> deliver process2 session8 (message ''destroy'' (Some (''user'', 8)) None)
      = ([SocketSend 0 \<lparr>env_name = ''destroy'',
            env_data = JObj [(''err'', JStr ''Event destroy is reserved'')], env_id = None\<rparr>],
         process2, session8)
   \<and> deliver process2 (session8\<lparr>bound := None\<rparr>) (message ''destroy'' (Some (''user'', 8)) None)
      = ([SocketSend 0 \<lparr>env_name = ''destroy'',
            env_data = JObj [(''err'', JStr ''Event destroy is reserved'')], env_id = None\<rparr>],
         process2, session8\<lparr>bound := None\<rparr>)"
  using reserved_name_fails [where m = "message ''destroy'' (Some (''user'', 8)) None"
           and p = process2 and s = session8]
    reserved_name_fails [where m = "message ''destroy'' (Some (''user'', 8)) None"
           and p = process2 and s = "session8\<lparr>bound := None\<rparr>"]
  by (simp add: message_def reservedEvents_def session8_def)

section \<open>Properties of allocation\<close>

text \<open>
  Claim C2.  \<open>generateId\<close> increments the counter of the kind with one \<open>INCR\<close> and
  returns the new value.  For a kind other than \<open>server\<close> it has then written, before
  it returns, the routing entry of the new identifier with the \<open>this.id\<close> of the
  allocating process, and has touched no other entry; for \<open>server\<close> it writes no
  routing entry at all.
\<close>

theorem allocation_writes_route:
  "generateId p kind = (es, i, p') \<Longrightarrow>
     i = (case counters (redis p) (''_id:'' @ kind) of None \<Rightarrow> 0 | Some n \<Rightarrow> n) + 1
   \<and> counters (redis p') (''_id:'' @ kind) = Some i
   \<and> (kind \<noteq> ''server'' \<longrightarrow>
        es = [StoreINCR (''_id:'' @ kind), StoreHSET (''_route:'' @ kind) i (pid p)]
      \<and> HGET (''_route:'' @ kind) i (redis p') = Some (pid p)
      \<and> (\<forall>key j. (key, j) \<noteq> (''_route:'' @ kind, i) \<longrightarrow> HGET key j (redis p') = HGET key j (redis p)))
   \<and> (kind = ''server'' \<longrightarrow>
        es = [StoreINCR (''_id:'' @ kind)] \<and> hashes (redis p') = hashes (redis p))"
  by (auto simp add: generateId_def INCR_def HSET_def HGET_def Let_def split: if_splits)

theorem allocation_writes_route_witness:
  "generateId process2 ''room'' =
     (fst (generateId process2 ''room''), 7, snd (snd (generateId process2 ''room'')))
   \<and> fst (generateId process2 ''room'') = [StoreINCR ''_id:room'', StoreHSET ''_route:room'' 7 (Some 2)]
   \<and> HGET ''_route:room'' 7 (redis (snd (snd (generateId process2 ''room'')))) = Some (Some 2)
   \<and> HGET ''_route:room'' 5 (redis (snd (snd (generateId process2 ''room'')))) = Some (Some 1)
   \<and> generateId process2 ''server'' =
     ([StoreINCR ''_id:server''], 3, snd (snd (generateId process2 ''server'')))
   \<and> hashes (redis (snd (snd (generateId process2 ''server'')))) = hashes (redis process2)"
proof -
  have a: "generateId process2 ''room'' =
     (fst (generateId process2 ''room''), 7, snd (snd (generateId process2 ''room'')))"
    by (simp add: generateId_def INCR_def process2_def shared_store_def)
  have b: "generateId process2 ''server'' =
     (fst (generateId process2 ''server''), 3, snd (snd (generateId process2 ''server'')))"
    by (simp add: generateId_def INCR_def process2_def shared_store_def)
  have c: "HGET ''_route:room'' 5 (redis process2) = Some (Some 1)" "pid process2 = Some 2"
    by (simp_all add: HGET_def process2_def shared_store_def)
  show ?thesis
    using allocation_writes_route [OF a] allocation_writes_route [OF b] a b c
    by simp
qed

section \<open>Properties of the reply callback\<close>

text \<open>
  One call of the callback sends one envelope when it carries an error, or when the
  message has a correlation id other than 0; it sends nothing for a success on a
  message without correlation id.
\<close>

lemma callback_replies:
  "callback sk m (Some e) d =
     [SocketSend sk \<lparr>env_name = msg_name m, env_data = JObj [(''err'', JStr e)], env_id = msg_id m\<rparr>]"
  "msg_id m = Some i \<Longrightarrow> i \<noteq> 0 \<Longrightarrow>
     callback sk m None d = [SocketSend sk \<lparr>env_name = msg_name m, env_data = d, env_id = Some i\<rparr>]"
  "msg_id m = None \<Longrightarrow> callback sk m None d = []"
  by (simp_all add: callback_def truthy_num_def)

text \<open>
  Claim C3.  The claim holds except at the correlation id 0: the callback tests
  \<open>e.msg.id\<close> for truthiness, so a success on a message that carries the correlation
  id 0 sends no envelope.  On process 2 the listener of \<open>ping\<close> answers \<open>pong\<close>; the
  request with id 7 gets its envelope, the request with id 0 gets none.
\<close>

theorem zero_correlation_id_unanswered:
  "callback sk (m\<lparr>msg_id := Some 0\<rparr>) None d = []
   \<and> deliver process2 session8 (message ''ping'' None (Some 0))
       = ([Fire Self ''ping'' (Some user8) (JNum 42)], process2, session8)
   \<and> deliver process2 session8 (message ''ping'' None (Some 7))
       = ([Fire Self ''ping'' (Some user8) (JNum 42),
           SocketSend 0 \<lparr>env_name = ''ping'', env_data = JStr ''pong'', env_id = Some 7\<rparr>],
          process2, session8)"
  by (simp add: callback_def truthy_num_def deliver_def on_message_def onMessage_def message_def
        reservedEvents_def hasEvent_def listeners_def process2_def fire_def after_def async_def
        session8_def)

theorem zero_correlation_id_unanswered_witness:
  "callback 0 (message ''ping'' None (Some 0)) None (JStr ''pong'') = []"
  using zero_correlation_id_unanswered [where sk = 0 and d = "JStr ''pong''"
          and m = "message ''ping'' None (Some 7)"]
  by (simp add: message_def)

section \<open>Exceptions raised by listeners\<close>








section \<open>Authentication\<close>

text \<open>
  Claim C7, as the code has it.  \<open>_authenticate\<close> is handled the same way whether or
  not the session already has a bound user.  Without an \<open>authenticate\<close> listener a
  fresh user identifier is allocated, a new user with it is stored in the registry
  and bound to the session in place of the previous one, and the callback reports
  the new identifier.  With a listener, the listener is fired with the user now bound
  and the payload; when it answers with an identifier, a new user with it is stored
  and bound in place of the previous one; when it answers with an error, the error
  envelope is sent and the socket is closed, registry and binding unchanged.
\<close>

theorem reauthentication_rebinds:
  assumes "msg_name m = ''_authenticate''"
  shows
   "(\<not> hasEvent p ''authenticate'' \<longrightarrow>
       deliver p s m =
         (case generateId p ''user'' of (es, i, p1) \<Rightarrow>
            (es @ callback (sock s) m None (JNum i),
             p1\<lparr>users := (users p1)(i \<mapsto> \<lparr>user_id = i, user_socket = sock s\<rparr>)\<rparr>,
             s\<lparr>bound := Some \<lparr>user_id = i, user_socket = sock s\<rparr>\<rparr>)))
  \<and> (authenticate p = [h] \<and> h (bound s) (msg_data m) = \<lparr>calls = [(None, i)], raises = None\<rparr> \<longrightarrow>
       deliver p s m =
         (Fire Self ''authenticate'' (bound s) (msg_data m) # callback (sock s) m None (JNum i),
          p\<lparr>users := (users p)(i \<mapsto> \<lparr>user_id = i, user_socket = sock s\<rparr>)\<rparr>,
          s\<lparr>bound := Some \<lparr>user_id = i, user_socket = sock s\<rparr>\<rparr>))
  \<and> (authenticate p = [h] \<and> h (bound s) (msg_data m) = \<lparr>calls = [(Some e, i)], raises = None\<rparr> \<longrightarrow>
       deliver p s m =
         (Fire Self ''authenticate'' (bound s) (msg_data m) # callback (sock s) m (Some e) JUndefined
            @ [SocketClose (sock s)], p, s))"
  using assms
  by (auto simp add: deliver_def on_message_def on_authenticate_def connectUser_def Let_def
        hasEvent_def listeners_def verdict_def async_def split: prod.splits)

theorem reauthentication_rebinds_witness:
  "msg_name (message ''_authenticate'' None (Some 4)) = ''_authenticate''
   \<and> \<not> hasEvent process2 ''authenticate''
   \<and> bound session8 = Some user8
   \<and> fst (deliver process2 session8 (message ''_authenticate'' None (Some 4)))
      = [StoreINCR ''_id:user'', StoreHSET ''_route:user'' 9 (Some 2),
         SocketSend 0 \<lparr>env_name = ''_authenticate'', env_data = JNum 9, env_id = Some 4\<rparr>]
   \<and> bound (snd (snd (deliver process2 session8 (message ''_authenticate'' None (Some 4)))))
      = Some \<lparr>user_id = 9, user_socket = 0\<rparr>
   \<and> fst (deliver guarded2 session8 (message ''_authenticate'' None (Some 4)))
      = [Fire Self ''authenticate'' (Some user8) (JNum 42),
         SocketSend 0 \<lparr>env_name = ''_authenticate'', env_data = JNum 77, env_id = Some 4\<rparr>]
   \<and> bound (snd (snd (deliver guarded2 session8 (message ''_authenticate'' None (Some 4)))))
      = Some \<lparr>user_id = 77, user_socket = 0\<rparr>
   \<and> deliver guarded2 session8 ((message ''_authenticate'' None (Some 4))\<lparr>msg_data := JNum 0\<rparr>)
      = ([Fire Self ''authenticate'' (Some user8) (JNum 0),
          SocketSend 0 \<lparr>env_name = ''_authenticate'',
             env_data = JObj [(''err'', JStr ''denied'')], env_id = Some 4\<rparr>,
          SocketClose 0], guarded2, session8)"
proof -
  have n: "msg_name (message ''_authenticate'' None (Some 4)) = ''_authenticate''"
    "msg_name ((message ''_authenticate'' None (Some 4))\<lparr>msg_data := JNum 0\<rparr>) = ''_authenticate''"
    by (simp_all add: message_def)
  obtain p1 where g: "generateId process2 ''user'' =
     ([StoreINCR ''_id:user'', StoreHSET ''_route:user'' 9 (Some 2)], 9, p1)"
    by (simp add: generateId_def INCR_def process2_def shared_store_def)
  have h: "\<not> hasEvent process2 ''authenticate''"
    by (simp add: hasEvent_def listeners_def process2_def)
  have s: "bound session8 = Some user8" "sock session8 = 0"
    by (simp_all add: session8_def)
  have a: "authenticate guarded2 =
     [\<lambda>u d. if d = JNum 42 then \<lparr>calls = [(None, 77)], raises = None\<rparr>
             else \<lparr>calls = [(Some ''denied'', 0)], raises = None\<rparr>]"
    by (simp add: guarded2_def)
  have c: "callback 0 (message ''_authenticate'' None (Some 4)) None (JNum k)
     = [SocketSend 0 \<lparr>env_name = ''_authenticate'', env_data = JNum k, env_id = Some 4\<rparr>]"
    "callback 0 ((message ''_authenticate'' None (Some 4))\<lparr>msg_data := JNum 0\<rparr>) (Some ''denied'') JUndefined
     = [SocketSend 0 \<lparr>env_name = ''_authenticate'',
             env_data = JObj [(''err'', JStr ''denied'')], env_id = Some 4\<rparr>]" for k
    by (simp_all add: callback_def message_def truthy_num_def)
  have d: "msg_data (message ''_authenticate'' None (Some 4)) = JNum 42"
    by (simp add: message_def)
  note r = reauthentication_rebinds [where s = session8]
  from r [OF n(1), where p = process2 and i = 0 and e = "[]" and h = "\<lambda>u d. \<lparr>calls = [], raises = None\<rparr>"]
    h g s c(1)
  have 1: "fst (deliver process2 session8 (message ''_authenticate'' None (Some 4)))
      = [StoreINCR ''_id:user'', StoreHSET ''_route:user'' 9 (Some 2),
         SocketSend 0 \<lparr>env_name = ''_authenticate'', env_data = JNum 9, env_id = Some 4\<rparr>]
    \<and> bound (snd (snd (deliver process2 session8 (message ''_authenticate'' None (Some 4)))))
      = Some \<lparr>user_id = 9, user_socket = 0\<rparr>"
    by simp
  from r [OF n(1), where p = guarded2 and i = 77 and e = "[]"
        and h = "\<lambda>u d. if d = JNum 42 then \<lparr>calls = [(None, 77)], raises = None\<rparr>
             else \<lparr>calls = [(Some ''denied'', 0)], raises = None\<rparr>"] a s c(1) d
  have 2: "fst (deliver guarded2 session8 (message ''_authenticate'' None (Some 4)))
      = [Fire Self ''authenticate'' (Some user8) (JNum 42),
         SocketSend 0 \<lparr>env_name = ''_authenticate'', env_data = JNum 77, env_id = Some 4\<rparr>]
    \<and> bound (snd (snd (deliver guarded2 session8 (message ''_authenticate'' None (Some 4)))))
      = Some \<lparr>user_id = 77, user_socket = 0\<rparr>"
    by simp
  from r [OF n(2), where p = guarded2 and i = 0 and e = "''denied''"
        and h = "\<lambda>u d. if d = JNum 42 then \<lparr>calls = [(None, 77)], raises = None\<rparr>
             else \<lparr>calls = [(Some ''denied'', 0)], raises = None\<rparr>"] a s c(2)
  have 3: "deliver guarded2 session8 ((message ''_authenticate'' None (Some 4))\<lparr>msg_data := JNum 0\<rparr>)
      = ([Fire Self ''authenticate'' (Some user8) (JNum 0),
          SocketSend 0 \<lparr>env_name = ''_authenticate'',
             env_data = JObj [(''err'', JStr ''denied'')], env_id = Some 4\<rparr>,
          SocketClose 0], guarded2, session8)"
    by simp
  show ?thesis using n(1) h s(1) 1 2 3 by simp
qed

text \<open>
  Claim C7 as it is written fails on process 2: the session is bound to user 8, a
  second \<open>_authenticate\<close> is answered with the new identifier 9, the session is then
  bound to a new user 9, and the registry holds both users.
\<close>

theorem reauthentication_counterexample:
  "bound session8 = Some user8
   \<and> fst (deliver process2 session8 (message ''_authenticate'' None (Some 4)))
      = [StoreINCR ''_id:user'', StoreHSET ''_route:user'' 9 (Some 2),
         SocketSend 0 \<lparr>env_name = ''_authenticate'', env_data = JNum 9, env_id = Some 4\<rparr>]
   \<and> bound (snd (snd (deliver process2 session8 (message ''_authenticate'' None (Some 4)))))
      = Some \<lparr>user_id = 9, user_socket = 0\<rparr>
   \<and> users (fst (snd (deliver process2 session8 (message ''_authenticate'' None (Some 4))))) 9
      = Some \<lparr>user_id = 9, user_socket = 0\<rparr>
   \<and> users (fst (snd (deliver process2 session8 (message ''_authenticate'' None (Some 4))))) 8
      = Some user8"
  by (simp add: deliver_def on_message_def on_authenticate_def connectUser_def Let_def
        hasEvent_def listeners_def generateId_def INCR_def HSET_def message_def
        process2_def shared_store_def session8_def user8_def callback_def truthy_num_def)

section \<open>Properties of start-up\<close>

lemma mentions_prefix: "mentions x (x @ ys)"
proof (cases "x @ ys")
  case Nil
  then show ?thesis by simp
next
  case (Cons c cs)
  have "take (length x) (x @ ys) = x" by simp
  then show ?thesis unfolding Cons by simp
qed

lemma mentions_append: "mentions x ys \<Longrightarrow> mentions x (zs @ ys)"
  by (induction zs) auto

lemma mentions_mid: "mentions x (zs @ x @ ys)"
  by (rule mentions_append) (rule mentions_prefix)

lemma validateSettings_lines:
  "validateSettings (Some s) = (if absent_lines s \<noteq> [] then Throws (absent_lines s) else Returns ())"
  by (simp add: validateSettings_def absent_lines_def Let_def)

lemma required_nonempty: "required x \<noteq> []"
  by (simp add: required_def)

lemma absent_lines_mentions:
  "(falsy_str (redisUrl s) \<longrightarrow> mentions (required ''settings.redisUrl'') (absent_lines s))
 \<and> (falsy_str (scriptsPath s) \<longrightarrow> mentions (required ''settings.scriptsPath'') (absent_lines s))
 \<and> (falsy_str (templatesPath s) \<longrightarrow> mentions (required ''settings.templatesPath'') (absent_lines s))
 \<and> (levelProvider s = None \<longrightarrow> mentions (required ''settings.levelProvider'') (absent_lines s))
 \<and> (\<not> is_server (server s) \<longrightarrow> mentions (required ''settings.server'') (absent_lines s))"
proof -
  have 1: "mentions x (x @ b @ c @ d @ e)" for x b c d e :: string
    by (rule mentions_prefix)
  have 2: "mentions x (a @ x @ c @ d @ e)" for x a c d e :: string
    by (rule mentions_mid)
  have 3: "mentions x (a @ b @ x @ d @ e)" for x a b d e :: string
    using mentions_mid [of x "a @ b" "d @ e"] by simp
  have 4: "mentions x (a @ b @ c @ x @ e)" for x a b c e :: string
    using mentions_mid [of x "a @ b @ c" e] by simp
  have 5: "mentions x (a @ b @ c @ d @ x)" for x a b c d :: string
    using mentions_mid [of x "a @ b @ c @ d" "[]"] by simp
  show ?thesis
    by (simp add: absent_lines_def 1 2 3 4 5)
qed

text \<open>
  Claim C9, as the code has it.  When the settings object is absent, \<open>validateSettings\<close>
  throws \<open>settings is required\<close>.  When it is present and a required setting is
  missing (the three strings absent or empty, the level provider absent, the server
  absent or neither an \<open>http.Server\<close> nor an \<open>https.Server\<close>), it throws a message that
  contains the line \<open>settings.X is required\<close> of every missing setting.  In both
  cases \<open>start\<close>, being \<open>async\<close>, returns a promise rejected with that error, and
  nothing has been done before: no connection to the store, no \<open>upgrade\<close> listener.
  When nothing is missing, \<open>start\<close> connects to the store twice, allocates the
  identifier of the process and attaches the \<open>upgrade\<close> listener.
\<close>

theorem start_rejects_before_network:
  "start p None = ([], Rejected ''settings is required'')
   \<and> validateSettings None = Throws ''settings is required''
   \<and> (falsy_str (redisUrl s) \<or> falsy_str (scriptsPath s) \<or> falsy_str (templatesPath s)
        \<or> levelProvider s = None \<or> \<not> is_server (server s) \<longrightarrow>
       (\<exists>e. validateSettings (Some s) = Throws e \<and> start p (Some s) = ([], Rejected e)
          \<and> (falsy_str (redisUrl s) \<longrightarrow> mentions (required ''settings.redisUrl'') e)
          \<and> (falsy_str (scriptsPath s) \<longrightarrow> mentions (required ''settings.scriptsPath'') e)
          \<and> (falsy_str (templatesPath s) \<longrightarrow> mentions (required ''settings.templatesPath'') e)
          \<and> (levelProvider s = None \<longrightarrow> mentions (required ''settings.levelProvider'') e)
          \<and> (\<not> is_server (server s) \<longrightarrow> mentions (required ''settings.server'') e)))
   \<and> (\<not> (falsy_str (redisUrl s) \<or> falsy_str (scriptsPath s) \<or> falsy_str (templatesPath s)
        \<or> levelProvider s = None \<or> \<not> is_server (server s)) \<longrightarrow>
       fst (start p (Some s)) =
         [StoreConnect (redisUrl s), StoreConnect (redisUrl s), StoreINCR ''_id:server'',
          OnUpgrade (server s)])"
proof -
  let ?missing = "falsy_str (redisUrl s) \<or> falsy_str (scriptsPath s) \<or> falsy_str (templatesPath s)
        \<or> levelProvider s = None \<or> \<not> is_server (server s)"
  have a1: "start p None = ([], Rejected ''settings is required'')"
    by (simp add: start_def validateSettings_def)
  have a2: "validateSettings None = Throws ''settings is required''"
    by (simp add: validateSettings_def)
  have ne: "absent_lines s \<noteq> []" if ?missing
    using that by (auto simp add: absent_lines_def required_nonempty)
  have b: "?missing \<longrightarrow>
       (\<exists>e. validateSettings (Some s) = Throws e \<and> start p (Some s) = ([], Rejected e)
          \<and> (falsy_str (redisUrl s) \<longrightarrow> mentions (required ''settings.redisUrl'') e)
          \<and> (falsy_str (scriptsPath s) \<longrightarrow> mentions (required ''settings.scriptsPath'') e)
          \<and> (falsy_str (templatesPath s) \<longrightarrow> mentions (required ''settings.templatesPath'') e)
          \<and> (levelProvider s = None \<longrightarrow> mentions (required ''settings.levelProvider'') e)
          \<and> (\<not> is_server (server s) \<longrightarrow> mentions (required ''settings.server'') e))"
  proof
    assume m: ?missing
    have "validateSettings (Some s) = Throws (absent_lines s)
        \<and> start p (Some s) = ([], Rejected (absent_lines s))"
      using ne [OF m] by (simp add: start_def validateSettings_lines)
    with absent_lines_mentions [of s] show "\<exists>e. validateSettings (Some s) = Throws e
          \<and> start p (Some s) = ([], Rejected e)
          \<and> (falsy_str (redisUrl s) \<longrightarrow> mentions (required ''settings.redisUrl'') e)
          \<and> (falsy_str (scriptsPath s) \<longrightarrow> mentions (required ''settings.scriptsPath'') e)
          \<and> (falsy_str (templatesPath s) \<longrightarrow> mentions (required ''settings.templatesPath'') e)
          \<and> (levelProvider s = None \<longrightarrow> mentions (required ''settings.levelProvider'') e)
          \<and> (\<not> is_server (server s) \<longrightarrow> mentions (required ''settings.server'') e)"
      by (intro exI [of _ "absent_lines s"]) simp
  qed
  have c: "\<not> ?missing \<longrightarrow> fst (start p (Some s)) =
         [StoreConnect (redisUrl s), StoreConnect (redisUrl s), StoreINCR ''_id:server'',
          OnUpgrade (server s)]"
  proof
    assume m: "\<not> ?missing"
    then have "absent_lines s = []" by (auto simp add: absent_lines_def)
    then show "fst (start p (Some s)) =
         [StoreConnect (redisUrl s), StoreConnect (redisUrl s), StoreINCR ''_id:server'',
          OnUpgrade (server s)]"
      by (simp add: start_def validateSettings_lines generateId_def INCR_def Let_def)
  qed
  show ?thesis
    by (rule conjI [OF a1 conjI [OF a2 conjI [OF b c]]])
qed

theorem start_rejects_before_network_witness:
  "falsy_str (redisUrl no_settings) \<and> falsy_str (scriptsPath no_settings)
   \<and> \<not> is_server (server no_settings)
   \<and> (\<exists>e. start process2 (Some no_settings) = ([], Rejected e)
         \<and> mentions (required ''settings.redisUrl'') e
         \<and> mentions (required ''settings.scriptsPath'') e
         \<and> mentions (required ''settings.server'') e)
   \<and> \<not> falsy_str (redisUrl good_settings) \<and> is_server (server good_settings)
   \<and> fst (start process2 (Some good_settings)) =
         [StoreConnect (Some ''redis://store''), StoreConnect (Some ''redis://store''),
          StoreINCR ''_id:server'', OnUpgrade (Some (HttpServer 2))]"
proof -
  have a: "falsy_str (redisUrl no_settings)" "falsy_str (scriptsPath no_settings)"
    "falsy_str (templatesPath no_settings)" "levelProvider no_settings = None"
    "\<not> is_server (server no_settings)"
    by (simp_all add: no_settings_def falsy_str_def is_server_def)
  have b: "\<not> falsy_str (redisUrl good_settings)" "\<not> falsy_str (scriptsPath good_settings)"
    "\<not> falsy_str (templatesPath good_settings)" "levelProvider good_settings \<noteq> None"
    "is_server (server good_settings)"
    by (simp_all add: good_settings_def falsy_str_def is_server_def)
  have c: "redisUrl good_settings = Some ''redis://store''"
    "server good_settings = Some (HttpServer 2)"
    by (simp_all add: good_settings_def)
  from a start_rejects_before_network [where s = no_settings and p = process2]
  have "\<exists>e. start process2 (Some no_settings) = ([], Rejected e)
         \<and> mentions (required ''settings.redisUrl'') e
         \<and> mentions (required ''settings.scriptsPath'') e
         \<and> mentions (required ''settings.server'') e"
    by auto
  moreover from b start_rejects_before_network [where s = good_settings and p = process2]
  have "fst (start process2 (Some good_settings)) =
         [StoreConnect (redisUrl good_settings), StoreConnect (redisUrl good_settings),
          StoreINCR ''_id:server'', OnUpgrade (server good_settings)]"
    by simp
  ultimately show ?thesis using a b c by simp
qed

text \<open>
  Claim C9 as it is written fails when the settings object itself is absent: every
  required setting is then missing, and the error names none of them.
\<close>

theorem start_without_settings:
  "start process2 None = ([], Rejected ''settings is required'')
   \<and> \<not> mentions ''redisUrl'' ''settings is required''
   \<and> \<not> mentions ''scriptsPath'' ''settings is required''
   \<and> \<not> mentions ''server'' ''settings is required''"
  by (simp add: start_def validateSettings_def)

section \<open>Properties of the Players registry\<close>

lemma on_destroy_idem: "on_destroy pl (on_destroy pl r) = on_destroy pl r"
  by (simp add: on_destroy_def)

lemma fold_on_destroy_same:
  "\<forall>q \<in> set qs. q = pl \<Longrightarrow> qs \<noteq> [] \<Longrightarrow> fold on_destroy qs r = on_destroy pl r"
proof (induction qs arbitrary: r)
  case Nil
  then show ?case by simp
next
  case (Cons q qs)
  show ?case
  proof (cases qs)
    case Nil
    with Cons.prems show ?thesis by simp
  next
    case (Cons a as)
    with Cons.prems Cons.IH [of "on_destroy pl r"] show ?thesis
      by (simp add: on_destroy_idem)
  qed
qed

lemma fire_destroy_eq:
  "fire_destroy r pl = (if pl \<in> set (subscribed r) then on_destroy pl r else r)"
proof (cases "pl \<in> set (subscribed r)")
  case True
  then have "filter (\<lambda>q. q = pl) (subscribed r) \<noteq> []"
    by (simp add: filter_empty_conv)
  then show ?thesis
    using True fold_on_destroy_same [of "filter (\<lambda>q. q = pl) (subscribed r)" pl r]
    by (simp add: fire_destroy_def)
next
  case False
  then have "filter (\<lambda>q. q = pl) (subscribed r) = []"
    by (auto simp add: filter_empty_conv)
  then show ?thesis using False by (simp add: fire_destroy_def)
qed

lemma subscribed_exec: "set (subscribed r) \<subseteq> set (subscribed (exec op r))"
  by (cases op) (auto simp add: add_def fire_destroy_eq on_destroy_def)

lemma subscribed_fold_exec: "pl \<in> set (subscribed r) \<Longrightarrow> pl \<in> set (subscribed (fold exec ops r))"
proof (induction ops arbitrary: r)
  case Nil
  then show ?case by simp
next
  case (Cons op ops)
  then show ?case using subscribed_exec [of r op] by auto
qed

lemma destroy_after_add:
  "get (fire_destroy (fold exec ops (snd (add r pl))) pl) (player_id pl) = None
   \<and> getByUserId (fire_destroy (fold exec ops (snd (add r pl))) pl) (player_user pl) = None
   \<and> getByRoomId (fire_destroy (fold exec ops (snd (add r pl))) pl) (player_room pl) = None"
proof -
  have "pl \<in> set (subscribed (snd (add r pl)))"
    by (simp add: add_def)
  then have "pl \<in> set (subscribed (fold exec ops (snd (add r pl))))"
    by (rule subscribed_fold_exec)
  then show ?thesis
    by (simp add: fire_destroy_eq on_destroy_def get_def getByUserId_def getByRoomId_def)
qed

lemma keyed_new: "keyed new_players"
  by (simp add: keyed_def new_players_def)

lemma keyed_exec: "keyed r \<Longrightarrow> keyed (exec op r)"
proof (cases op)
  case (Add pl)
  assume "keyed r"
  then show ?thesis using Add
    by (auto simp add: keyed_def add_def split: if_splits)
next
  case (Destroy pl)
  assume "keyed r"
  then show ?thesis using Destroy
    by (auto simp add: keyed_def fire_destroy_eq on_destroy_def split: if_splits)
qed

lemma keyed_destroy_unreachable: "keyed r \<Longrightarrow> unreachable (exec (Destroy pl) r) pl"
  by (auto simp add: keyed_def unreachable_def fire_destroy_eq on_destroy_def)

lemma unreachable_exec: "unreachable r pl \<Longrightarrow> op \<noteq> Add pl \<Longrightarrow> unreachable (exec op r) pl"
  by (cases op) (auto simp add: unreachable_def add_def fire_destroy_eq on_destroy_def)

lemma unreachable_fold: "unreachable r pl \<Longrightarrow> Add pl \<notin> set ops \<Longrightarrow> unreachable (fold exec ops r) pl"
proof (induction ops arbitrary: r)
  case Nil
  then show ?case by simp
next
  case (Cons op ops)
  then show ?case using unreachable_exec [of r pl op] by auto
qed

lemma destroyed_unreachable:
  "keyed r \<Longrightarrow> never_readded ops \<Longrightarrow> Destroy pl \<in> set ops \<Longrightarrow> unreachable (fold exec ops r) pl"
proof (induction ops arbitrary: r)
  case Nil
  then show ?case by simp
next
  case (Cons op ops)
  show ?case
  proof (cases "op = Destroy pl")
    case True
    with Cons.prems have "Add pl \<notin> set ops" by simp
    moreover have "unreachable (exec op r) pl"
      using True Cons.prems(1) keyed_destroy_unreachable by simp
    ultimately show ?thesis using unreachable_fold by simp
  next
    case False
    with Cons.prems have d: "Destroy pl \<in> set ops" by simp
    have n: "never_readded ops" using Cons.prems(2) by (cases op) simp_all
    show ?thesis using Cons.IH [OF keyed_exec [OF Cons.prems(1)] n d] by simp
  qed
qed

text \<open>
  Claim C10.  \<open>add\<close> returns the player, and right after it the three lookups under
  the player's own identifier, its user's and its room's return the player.  When
  the player fires \<open>destroy\<close> later, whatever was added or destroyed in between, the
  three lookups under those keys return nothing.  In any history of a registry that
  starts empty and never adds a player again after its \<open>destroy\<close>, no lookup under
  any key returns a player that has fired \<open>destroy\<close>.
\<close>

theorem players_indexes_consistent:
  "fst (add r pl) = pl
   \<and> get (snd (add r pl)) (player_id pl) = Some pl
   \<and> getByUserId (snd (add r pl)) (player_user pl) = Some pl
   \<and> getByRoomId (snd (add r pl)) (player_room pl) = Some pl
   \<and> get (fire_destroy (fold exec ops (snd (add r pl))) pl) (player_id pl) = None
   \<and> getByUserId (fire_destroy (fold exec ops (snd (add r pl))) pl) (player_user pl) = None
   \<and> getByRoomId (fire_destroy (fold exec ops (snd (add r pl))) pl) (player_room pl) = None
   \<and> (never_readded hist \<and> Destroy pl \<in> set hist \<longrightarrow>
        get (fold exec hist new_players) k \<noteq> Some pl
      \<and> getByUserId (fold exec hist new_players) k \<noteq> Some pl
      \<and> getByRoomId (fold exec hist new_players) k \<noteq> Some pl)"
proof -
  have a: "fst (add r pl) = pl
   \<and> get (snd (add r pl)) (player_id pl) = Some pl
   \<and> getByUserId (snd (add r pl)) (player_user pl) = Some pl
   \<and> getByRoomId (snd (add r pl)) (player_room pl) = Some pl"
    by (simp add: add_def get_def getByUserId_def getByRoomId_def)
  have c: "get (fold exec hist new_players) k \<noteq> Some pl
      \<and> getByUserId (fold exec hist new_players) k \<noteq> Some pl
      \<and> getByRoomId (fold exec hist new_players) k \<noteq> Some pl"
    if "never_readded hist" "Destroy pl \<in> set hist"
    using destroyed_unreachable [OF keyed_new that]
    by (simp add: unreachable_def get_def getByUserId_def getByRoomId_def)
  show ?thesis using a destroy_after_add [of ops r pl] c by blast
qed

theorem players_indexes_consistent_witness:
  "never_readded [Add alice, Add bob, Destroy alice]
   \<and> Destroy alice \<in> set [Add alice, Add bob, Destroy alice]
   \<and> get (snd (add new_players alice)) 11 = Some alice
   \<and> getByUserId (snd (add new_players alice)) 8 = Some alice
   \<and> getByRoomId (snd (add new_players alice)) 6 = Some alice
   \<and> get (fire_destroy (fold exec [Add bob] (snd (add new_players alice))) alice) 11 = None
   \<and> getByUserId (fire_destroy (fold exec [Add bob] (snd (add new_players alice))) alice) 8 = None
   \<and> getByRoomId (fire_destroy (fold exec [Add bob] (snd (add new_players alice))) alice) 6 = None
   \<and> getByRoomId (fold exec [Add alice, Add bob, Destroy alice] new_players) 6 \<noteq> Some alice"
  using players_indexes_consistent [where r = new_players and pl = alice and ops = "[Add bob]"
          and hist = "[Add alice, Add bob, Destroy alice]" and k = 6]
  by (simp add: alice_def bob_def)

end
